theory Spec2Isabelle
  imports Main "HOL-Library.Word"
begin

section \<open>Data model of cmd/ipfs-cluster-service/state.go\<close>

type_synonym byte = "8 word"
type_synonym peer_ID = string
type_synonym multiaddr = string

text \<open>
  Go compares error values by identity. An error value created in state.go itself
  (\<^verbatim>\<open>errors.New\<close> at package level or inside \<^verbatim>\<open>validateVersion\<close>) is never identical
  to a value handed back by a collaborator package (raft, mapstate, pstoremgr, config,
  encoding/json, io): package main cannot be imported, so its values are out of their
  reach. The two origins are therefore two constructors; the string is the message.
\<close>

datatype error = Local string | Foreign string

definition errors_New :: "string \<Rightarrow> error" where
  "errors_New msg = Local msg"

definition errNoSnapshot :: error where
  "errNoSnapshot = errors_New ''no snapshot found''"

text \<open>
  An \<^verbatim>\<open>io.Reader\<close>: the bytes behind it, the read position, and the error the stream
  reports instead of a clean end of file once the bytes run out (\<open>None\<close> for EOF).
  \<^verbatim>\<open>bytes.NewReader(b)\<close> is a cursor at position 0 over \<open>b\<close> that never fails;
  \<^verbatim>\<open>ioutil.ReadAll(r)\<close> returns everything from the position on, with the stream's error.
\<close>

datatype reader = Reader (buf: "byte list") (off: nat) (fault: "error option")

definition bytes_NewReader :: "byte list \<Rightarrow> reader" where
  "bytes_NewReader b = Reader b 0 None"

fun ioutil_ReadAll :: "reader \<Rightarrow> byte list \<times> error option" where
  "ioutil_ReadAll (Reader b i e) = (drop i b, e)"

text \<open>
  An \<^verbatim>\<open>io.Writer\<close>: what has been written so far, and the error every write reports
  (\<open>None\<close> for a sink that accepts the bytes).
\<close>

datatype writer = Writer (written: "byte list") (wfault: "error option")

fun io_Write :: "writer \<Rightarrow> byte list \<Rightarrow> writer \<times> error option" where
  "io_Write (Writer out None) b = (Writer (out @ b) None, None)"
| "io_Write (Writer out (Some e)) b = (Writer out (Some e), Some e)"

text \<open>The configuration objects, with the fields and getters state.go reads.\<close>

record raft_Config =
  GetDataFolder :: string
  BackupsRotate :: int

record cluster_Config =
  ID :: peer_ID
  GetPeerstorePath :: string

record cfgs =
  clusterCfg :: cluster_Config
  consensusCfg :: raft_Config

text \<open>
  What a command does to the outside, in order: the lines it logs, the calls that consume
  a byte cursor (\<^verbatim>\<open>ioutil.ReadAll\<close>, \<^verbatim>\<open>Unmarshal\<close>, \<^verbatim>\<open>Migrate\<close>, each with the cursor as
  it is when the call starts), the records it adds, and the snapshots it saves
  (\<^verbatim>\<open>raft.SnapshotSave\<close> with its three arguments).
\<close>

datatype ('st, 'pin) event =
    LogError string
  | LogWarning string
  | ReadAllCall reader
  | UnmarshalCall reader
  | MigrateCall reader
  | AddCall 'pin
  | SnapshotSaveCall raft_Config "'st option" "peer_ID list"

text \<open>Selects the \<^verbatim>\<open>ioutil.ReadAll\<close> calls of a trace.\<close>

fun isReadAll :: "('st, 'pin) event \<Rightarrow> bool" where
  "isReadAll (ReadAllCall r) = True"
| "isReadAll _ = False"

text \<open>
  The collaborators of state.go, none of which lives in this file: the configuration
  manager, the raft snapshot store, the map state (\<open>'st\<close>, with its records \<open>'pin\<close>), the
  peer store and the JSON codec of a list of pins. A method that mutates its receiver or
  advances its reader returns the new receiver and the advanced reader. A \<^verbatim>\<open>state.State\<close>
  interface value that may be nil is an \<open>'st option\<close>. Within one command a collaborator
  gives the same answer to the same question: \<^verbatim>\<open>upgrade\<close> loads the configuration twice
  and gets the same configuration twice.
\<close>

record ('st, 'pin) env =
  LoadJSONFileAndEnv :: "error + cfgs"
  raft_LastStateRaw :: "raft_Config \<Rightarrow> reader \<times> bool \<times> error option"
  raft_SnapshotSave :: "raft_Config \<Rightarrow> 'st option \<Rightarrow> peer_ID list \<Rightarrow> error option"
  mapstate_NewMapState :: 'st
  mapstate_Version :: int
  MapState_Unmarshal :: "'st \<Rightarrow> reader \<Rightarrow> error option \<times> 'st \<times> reader"
  MapState_Migrate :: "'st \<Rightarrow> reader \<Rightarrow> error option \<times> 'st \<times> reader"
  MapState_GetVersion :: "'st \<Rightarrow> int"
  MapState_Add :: "'st \<Rightarrow> 'pin \<Rightarrow> error option \<times> 'st"
  State_List :: "'st \<Rightarrow> 'pin list"
  pstoremgr_LoadPeerstore :: "string \<Rightarrow> multiaddr list"
  PeersFromMultiaddrs :: "multiaddr list \<Rightarrow> peer_ID list"
  json_Decode :: "reader \<Rightarrow> error + 'pin list"
  json_Encode :: "'pin list \<Rightarrow> error + byte list"

section \<open>The operations\<close>

text \<open>
  \<^verbatim>\<open>restoreStateFromDisk\<close>: the state of the latest snapshot, a flag that is true
  when the snapshot already has the current format, and an error.
\<close>

definition restoreStateFromDisk ::
  "('st, 'pin) env \<Rightarrow> ('st, 'pin) event list \<times> ('st option \<times> bool \<times> error option)" where
  "restoreStateFromDisk env =
    (case LoadJSONFileAndEnv env of
       Inl err \<Rightarrow> ([], (None, False, Some err))
     | Inr cfgs \<Rightarrow>
        (case raft_LastStateRaw env (consensusCfg cfgs) of
           (r, snapExists, err0) \<Rightarrow>
            (case (if \<not> snapExists then Some errNoSnapshot else err0) of
               Some err \<Rightarrow> ([], (None, False, Some err))
             | None \<Rightarrow>
                (case ioutil_ReadAll r of
                   (full, Some err) \<Rightarrow> ([ReadAllCall r], (None, False, Some err))
                 | (full, None) \<Rightarrow>
                    (let reader1 = bytes_NewReader full in
                     case MapState_Unmarshal env (mapstate_NewMapState env) reader1 of
                       (Some err, _, _) \<Rightarrow>
                         ([ReadAllCall r, UnmarshalCall reader1], (None, False, Some err))
                     | (None, stateFromSnap, _) \<Rightarrow>
                         if MapState_GetVersion env stateFromSnap = mapstate_Version env
                         then ([ReadAllCall r, UnmarshalCall reader1],
                               (Some stateFromSnap, True, None))
                         else
                           (let reader2 = bytes_NewReader full in
                            case MapState_Migrate env stateFromSnap reader2 of
                              (Some err, _, _) \<Rightarrow>
                                ([ReadAllCall r, UnmarshalCall reader1, MigrateCall reader2],
                                 (None, False, Some err))
                            | (None, migrated, _) \<Rightarrow>
                                ([ReadAllCall r, UnmarshalCall reader1, MigrateCall reader2],
                                 (Some migrated, False, None))))))))"

text \<open>
  \<^verbatim>\<open>upgrade\<close>: restores the state and, unless it is already current, saves it as a
  new snapshot whose peers are those of the peer store followed by this node's own ID.
\<close>

definition upgrade :: "('st, 'pin) env \<Rightarrow> ('st, 'pin) event list \<times> error option" where
  "upgrade env =
    (case restoreStateFromDisk env of
       (t, (_, _, Some err)) \<Rightarrow> (t, Some err)
     | (t, (newState, current, None)) \<Rightarrow>
         if current
         then (t @ [LogWarning ''Skipping migration of up-to-date state''], None)
         else
           (case LoadJSONFileAndEnv env of
              Inl err \<Rightarrow> (t, Some err)
            | Inr cfgs \<Rightarrow>
               (let raftPeers =
                      PeersFromMultiaddrs env
                        (pstoremgr_LoadPeerstore env (GetPeerstorePath (clusterCfg cfgs)))
                      @ [ID (clusterCfg cfgs)]
                in (t @ [SnapshotSaveCall (consensusCfg cfgs) newState raftPeers],
                    raft_SnapshotSave env (consensusCfg cfgs) newState raftPeers))))"

text \<open>
  The loop \<^verbatim>\<open>for _, p := range pins\<close> of \<^verbatim>\<open>stateImport\<close>: adds the pins in order
  and returns at the first add that fails.
\<close>

fun addPins ::
  "('st, 'pin) env \<Rightarrow> 'st \<Rightarrow> 'pin list \<Rightarrow> ('st, 'pin) event list \<times> error option \<times> 'st" where
  "addPins env stateToImport [] = ([], None, stateToImport)"
| "addPins env stateToImport (p # pins) =
     (case MapState_Add env stateToImport p of
        (Some err, st') \<Rightarrow> ([AddCall p], Some err, st')
      | (None, st') \<Rightarrow>
          (case addPins env st' pins of (t, res) \<Rightarrow> (AddCall p # t, res)))"

text \<open>
  \<^verbatim>\<open>stateImport\<close>: decodes a JSON list of pins from \<open>r\<close>, adds them to a new map state
  and saves that state as a snapshot.
\<close>

definition stateImport ::
  "('st, 'pin) env \<Rightarrow> reader \<Rightarrow> ('st, 'pin) event list \<times> error option" where
  "stateImport env r =
    (case LoadJSONFileAndEnv env of
       Inl err \<Rightarrow> ([], Some err)
     | Inr cfgs \<Rightarrow>
        (case json_Decode env r of
           Inl err \<Rightarrow> ([], Some err)
         | Inr pins \<Rightarrow>
            (case addPins env (mapstate_NewMapState env) pins of
               (t, Some err, _) \<Rightarrow> (t, Some err)
             | (t, None, stateToImport) \<Rightarrow>
                (let raftPeers =
                       PeersFromMultiaddrs env
                         (pstoremgr_LoadPeerstore env (GetPeerstorePath (clusterCfg cfgs)))
                       @ [ID (clusterCfg cfgs)]
                 in (t @ [SnapshotSaveCall (consensusCfg cfgs) (Some stateToImport) raftPeers],
                     raft_SnapshotSave env (consensusCfg cfgs) (Some stateToImport) raftPeers)))))"

text \<open>
  \<^verbatim>\<open>validateVersion\<close>: the check made before the consensus component starts. The
  cluster configuration \<open>cfg\<close> is a parameter the body does not read.
\<close>

definition validateVersion ::
  "('st, 'pin) env \<Rightarrow> cluster_Config \<Rightarrow> raft_Config \<Rightarrow> ('st, 'pin) event list \<times> error option" where
  "validateVersion env cfg cCfg =
    (let state = mapstate_NewMapState env in
     case raft_LastStateRaw env cCfg of
       (r, snapExists, err) \<Rightarrow>
         if \<not> snapExists \<and> err \<noteq> None
         then ([LogError ''error before reading latest snapshot.''], err)
         else if snapExists \<and> err \<noteq> None
         then ([LogError ''error after reading last snapshot. Snapshot potentially corrupt.''],
               err)
         else if snapExists \<and> err = None
         then
           (case MapState_Unmarshal env state r of
              (Some err2, _, _) \<Rightarrow>
                ([UnmarshalCall r,
                  LogError ''error unmarshalling snapshot. Snapshot potentially corrupt.''],
                 Some err2)
            | (None, state', _) \<Rightarrow>
                if MapState_GetVersion env state' \<noteq> mapstate_Version env
                then
                  ([UnmarshalCall r,
                    LogError ''!!!!!!!!!!!!!!!!!!!!!!!!!!!!!!!!!!!!!!!!!!!!!!!'',
                    LogError ''Out of date ipfs-cluster state is saved.'',
                    LogError ''To migrate to the new version, run ipfs-cluster-service state upgrade.'',
                    LogError ''To launch a node without this state, rename the consensus data directory.'',
                    LogError ''Hint: the default is .ipfs-cluster/raft.'',
                    LogError ''!!!!!!!!!!!!!!!!!!!!!!!!!!!!!!!!!!!!!!!!!!!!!!!''],
                   Some (errors_New ''outdated state version stored''))
                else ([UnmarshalCall r], err))
         else ([], err))"

text \<open>
  \<^verbatim>\<open>exportState\<close>: writes the JSON of the state's list of pins (indented by four
  spaces, which is the encoder's business) to \<open>w\<close>.
\<close>

definition exportState ::
  "('st, 'pin) env \<Rightarrow> 'st \<Rightarrow> writer \<Rightarrow> writer \<times> error option" where
  "exportState env state w =
    (let pins = State_List env state in
     case json_Encode env pins of
       Inl err \<Rightarrow> (w, Some err)
     | Inr bs \<Rightarrow> io_Write w bs)"

section \<open>Example collaborators\<close>

text \<open>
  A small map state to run the operations on: a state is its format version and its pins
  (numbers); a snapshot is one version byte followed by one byte per pin. \<open>Unmarshal\<close>
  reads that to the end and fails on an empty stream; \<open>Migrate\<close> reads the same bytes and
  stamps the result with the current version, 2. \<open>Add\<close> puts a pin in front and drops
  an older copy of it; the JSON text of a list of pins is one byte per pin, and decoding
  fails when the stream does. The peer store is empty.
\<close>

type_synonym demo_state = "int \<times> nat list"

definition demo_cfgs :: cfgs where
  "demo_cfgs =
     \<lparr>clusterCfg = \<lparr>ID = ''self'', GetPeerstorePath = ''peerstore''\<rparr>,
      consensusCfg = \<lparr>GetDataFolder = ''raft'', BackupsRotate = 6\<rparr>\<rparr>"

fun demo_decode :: "bool \<Rightarrow> demo_state \<Rightarrow> reader \<Rightarrow> error option \<times> demo_state \<times> reader" where
  "demo_decode stamp st (Reader b i e) =
     (case drop i b of
        [] \<Rightarrow> (Some (Foreign ''unexpected end of input''), st, Reader b (length b) e)
      | v # ps \<Rightarrow>
          (None, ((if stamp then 2 else uint v), map unat ps), Reader b (length b) e))"

definition demo_env :: "byte list \<Rightarrow> (demo_state, nat) env" where
  "demo_env snapshot =
     \<lparr>LoadJSONFileAndEnv = Inr demo_cfgs,
      raft_LastStateRaw = (\<lambda>c. (Reader snapshot 0 None, True, None)),
      raft_SnapshotSave = (\<lambda>c st peers. None),
      mapstate_NewMapState = (2, []),
      mapstate_Version = 2,
      MapState_Unmarshal = demo_decode False,
      MapState_Migrate = demo_decode True,
      MapState_GetVersion = fst,
      MapState_Add = (\<lambda>st p. (None, (fst st, p # filter (\<lambda>q. q \<noteq> p) (snd st)))),
      State_List = snd,
      pstoremgr_LoadPeerstore = (\<lambda>path. []),
      PeersFromMultiaddrs = (\<lambda>addrs. addrs),
      json_Decode =
        (\<lambda>r. case ioutil_ReadAll r of
               (bs, Some e) \<Rightarrow> Inl e
             | (bs, None) \<Rightarrow> Inr (map unat bs)),
      json_Encode = (\<lambda>ps. Inr (map of_nat ps))\<rparr>"

section \<open>Restoring a snapshot\<close>

text \<open>
  C1. When the configuration loads, a snapshot exists and its bytes \<open>full\<close> decode with
  the current decoder into \<open>s1\<close>: if the version of \<open>s1\<close> is the current one, restore
  returns \<open>s1\<close> with the flag true; otherwise it calls the migration on a new cursor at
  position 0 over the same \<open>full\<close> and, when the migration succeeds with \<open>s2\<close>, returns
  \<open>s2\<close> with the flag false.
\<close>

theorem restore_current_or_migrated:
  assumes "LoadJSONFileAndEnv env = Inr cfgs"
    and "raft_LastStateRaw env (consensusCfg cfgs) = (r, True, None)"
    and "ioutil_ReadAll r = (full, None)"
    and "MapState_Unmarshal env (mapstate_NewMapState env) (bytes_NewReader full) = (None, s1, r1)"
  shows "(MapState_GetVersion env s1 = mapstate_Version env \<longrightarrow>
            snd (restoreStateFromDisk env) = (Some s1, True, None))
       \<and> (MapState_GetVersion env s1 \<noteq> mapstate_Version env \<longrightarrow>
            MigrateCall (Reader full 0 None) \<in> set (fst (restoreStateFromDisk env))
          \<and> (\<forall>s2 r2. MapState_Migrate env s1 (Reader full 0 None) = (None, s2, r2) \<longrightarrow>
                snd (restoreStateFromDisk env) = (Some s2, False, None)))"
  using assms
  by (auto simp: restoreStateFromDisk_def bytes_NewReader_def Let_def
           split: prod.splits option.splits)

theorem restore_current_or_migrated_witness:
  "snd (restoreStateFromDisk (demo_env [2, 7, 9])) = (Some (2, [7, 9]), True, None)
 \<and> snd (restoreStateFromDisk (demo_env [1, 7, 9])) = (Some (2, [7, 9]), False, None)
 \<and> MigrateCall (Reader [1, 7, 9] 0 None) \<in> set (fst (restoreStateFromDisk (demo_env [1, 7, 9])))"
proof -
  have cur: "snd (restoreStateFromDisk (demo_env [2, 7, 9])) = (Some (2, [7, 9]), True, None)"
    using restore_current_or_migrated
      [of "demo_env [2, 7, 9]" demo_cfgs "Reader [2, 7, 9] 0 None" "[2, 7, 9]"
          "(2, [7, 9])" "Reader [2, 7, 9] 3 None"]
    by (simp add: demo_env_def bytes_NewReader_def)
  have old: "snd (restoreStateFromDisk (demo_env [1, 7, 9])) = (Some (2, [7, 9]), False, None)
     \<and> MigrateCall (Reader [1, 7, 9] 0 None) \<in> set (fst (restoreStateFromDisk (demo_env [1, 7, 9])))"
    using restore_current_or_migrated
      [of "demo_env [1, 7, 9]" demo_cfgs "Reader [1, 7, 9] 0 None" "[1, 7, 9]"
          "(1, [7, 9])" "Reader [1, 7, 9] 3 None"]
    by (simp add: demo_env_def bytes_NewReader_def)
  from cur old show ?thesis by simp
qed

text \<open>
  C5. When the snapshot store answers "no snapshot" together with a read error,
  \<^verbatim>\<open>restoreStateFromDisk\<close> overwrites that error with \<open>errNoSnapshot\<close> before it
  looks at it: the caller is told that no snapshot was found, and the read error is lost.
  \<^verbatim>\<open>validateVersion\<close>, on the same answer of the store, returns the read error.
\<close>

theorem restore_masks_read_error:
  assumes "LoadJSONFileAndEnv env = Inr cfgs"
    and "raft_LastStateRaw env (consensusCfg cfgs) = (r, False, Some ioerr)"
  shows "restoreStateFromDisk env = ([], (None, False, Some errNoSnapshot))
       \<and> snd (validateVersion env cfg (consensusCfg cfgs)) = Some ioerr"
  using assms by (simp add: restoreStateFromDisk_def validateVersion_def)

theorem restore_masks_read_error_witness:
  "restoreStateFromDisk
     ((demo_env [])\<lparr>raft_LastStateRaw :=
        \<lambda>c. (Reader [] 0 None, False, Some (Foreign ''permission denied''))\<rparr>)
     = ([], (None, False, Some (Local ''no snapshot found'')))
 \<and> snd (validateVersion
     ((demo_env [])\<lparr>raft_LastStateRaw :=
        \<lambda>c. (Reader [] 0 None, False, Some (Foreign ''permission denied''))\<rparr>)
     (clusterCfg demo_cfgs) (consensusCfg demo_cfgs))
     = Some (Foreign ''permission denied'')"
  using restore_masks_read_error
    [of "(demo_env [])\<lparr>raft_LastStateRaw :=
           \<lambda>c. (Reader [] 0 None, False, Some (Foreign ''permission denied''))\<rparr>"
        demo_cfgs "Reader [] 0 None" "Foreign ''permission denied''" "clusterCfg demo_cfgs"]
  by (simp add: demo_env_def errNoSnapshot_def errors_New_def)

text \<open>
  C8. When the configuration loads, a snapshot exists and its bytes \<open>full\<close> are read:
  if decoding \<open>full\<close> fails with \<open>e\<close>, or decoding succeeds with another version and
  the migration fails with \<open>e\<close>, restore returns the error \<open>e\<close> and no state. In every
  run, restore returns an error exactly when it returns no state.
\<close>

theorem restore_failure_returns_no_state:
  assumes "LoadJSONFileAndEnv env = Inr cfgs"
    and "raft_LastStateRaw env (consensusCfg cfgs) = (r, True, None)"
    and "ioutil_ReadAll r = (full, None)"
  shows "(\<forall>e s' r'. MapState_Unmarshal env (mapstate_NewMapState env) (bytes_NewReader full)
                      = (Some e, s', r') \<longrightarrow>
            snd (restoreStateFromDisk env) = (None, False, Some e))
       \<and> (\<forall>s1 r1 e s' r'.
            MapState_Unmarshal env (mapstate_NewMapState env) (bytes_NewReader full)
              = (None, s1, r1)
          \<and> MapState_GetVersion env s1 \<noteq> mapstate_Version env
          \<and> MapState_Migrate env s1 (bytes_NewReader full) = (Some e, s', r') \<longrightarrow>
            snd (restoreStateFromDisk env) = (None, False, Some e))
       \<and> (snd (snd (snd (restoreStateFromDisk env))) \<noteq> None)
           = (fst (snd (restoreStateFromDisk env)) = None)"
  using assms
  by (auto simp: restoreStateFromDisk_def Let_def split: prod.splits option.splits)

theorem restore_failure_returns_no_state_witness:
  "snd (restoreStateFromDisk (demo_env []))
     = (None, False, Some (Foreign ''unexpected end of input''))
 \<and> snd (restoreStateFromDisk
     ((demo_env [1, 7])\<lparr>MapState_Migrate :=
        \<lambda>st rd. (Some (Foreign ''unknown version''), st, rd)\<rparr>))
     = (None, False, Some (Foreign ''unknown version''))"
proof -
  have a: "snd (restoreStateFromDisk (demo_env []))
             = (None, False, Some (Foreign ''unexpected end of input''))"
    using restore_failure_returns_no_state
      [of "demo_env []" demo_cfgs "Reader [] 0 None" "[]"]
    by (simp add: demo_env_def bytes_NewReader_def)
  have b: "snd (restoreStateFromDisk
     ((demo_env [1, 7])\<lparr>MapState_Migrate :=
        \<lambda>st rd. (Some (Foreign ''unknown version''), st, rd)\<rparr>))
     = (None, False, Some (Foreign ''unknown version''))"
    using restore_failure_returns_no_state
      [of "(demo_env [1, 7])\<lparr>MapState_Migrate :=
             \<lambda>st rd. (Some (Foreign ''unknown version''), st, rd)\<rparr>"
          demo_cfgs "Reader [1, 7] 0 None" "[1, 7]"]
    by (simp add: demo_env_def bytes_NewReader_def)
  from a b show ?thesis by simp
qed

text \<open>
  C9. When the configuration loads, a snapshot exists and \<^verbatim>\<open>ioutil.ReadAll\<close> returns
  its bytes \<open>full\<close>: the run makes one \<^verbatim>\<open>ReadAll\<close> call, then decodes from a cursor at
  position 0 over \<open>full\<close>, and, if that succeeds with another version, migrates from a
  cursor that is again at position 0 over the same \<open>full\<close>, wherever the decoder has left
  its own cursor (\<open>r1\<close>).
\<close>

theorem restore_reads_once_two_cursors:
  assumes "LoadJSONFileAndEnv env = Inr cfgs"
    and "raft_LastStateRaw env (consensusCfg cfgs) = (r, True, None)"
    and "ioutil_ReadAll r = (full, None)"
    and "MapState_Unmarshal env (mapstate_NewMapState env) (Reader full 0 None) = (e1, s1, r1)"
  shows "fst (restoreStateFromDisk env) =
           ReadAllCall r # UnmarshalCall (Reader full 0 None) #
             (if e1 = None \<and> MapState_GetVersion env s1 \<noteq> mapstate_Version env
              then [MigrateCall (Reader full 0 None)] else [])
       \<and> length (filter isReadAll (fst (restoreStateFromDisk env))) = 1"
  using assms
  by (auto simp: restoreStateFromDisk_def bytes_NewReader_def Let_def
           split: prod.splits option.splits)

theorem restore_reads_once_two_cursors_witness:
  "MapState_Unmarshal (demo_env [1, 7, 9]) (2, []) (Reader [1, 7, 9] 0 None)
     = (None, (1, [7, 9]), Reader [1, 7, 9] 3 None)
 \<and> fst (restoreStateFromDisk (demo_env [1, 7, 9]))
     = [ReadAllCall (Reader [1, 7, 9] 0 None), UnmarshalCall (Reader [1, 7, 9] 0 None),
        MigrateCall (Reader [1, 7, 9] 0 None)]
 \<and> length (filter isReadAll (fst (restoreStateFromDisk (demo_env [1, 7, 9])))) = 1"
proof -
  have u: "MapState_Unmarshal (demo_env [1, 7, 9]) (2, []) (Reader [1, 7, 9] 0 None)
     = (None, (1, [7, 9]), Reader [1, 7, 9] 3 None)"
    by (simp add: demo_env_def)
  from u restore_reads_once_two_cursors
      [of "demo_env [1, 7, 9]" demo_cfgs "Reader [1, 7, 9] 0 None" "[1, 7, 9]"
          None "(1, [7, 9])" "Reader [1, 7, 9] 3 None"]
  show ?thesis by (simp add: demo_env_def)
qed

section \<open>Upgrading\<close>

lemma restore_no_save: "SnapshotSaveCall c s p \<notin> set (fst (restoreStateFromDisk env))"
  by (auto simp: restoreStateFromDisk_def Let_def split: prod.splits option.splits sum.splits)

text \<open>
  C10. When restore returns a state with the flag true and no error, \<^verbatim>\<open>upgrade\<close>
  returns nil, and all it adds to what restore did is one warning line: the run saves
  no snapshot.
\<close>

theorem upgrade_skips_current:
  assumes "snd (restoreStateFromDisk env) = (st, True, None)"
  shows "snd (upgrade env) = None
       \<and> fst (upgrade env)
           = fst (restoreStateFromDisk env)
             @ [LogWarning ''Skipping migration of up-to-date state'']
       \<and> (\<forall>c s p. SnapshotSaveCall c s p \<notin> set (fst (upgrade env)))"
proof -
  from assms have u: "upgrade env =
      (fst (restoreStateFromDisk env) @ [LogWarning ''Skipping migration of up-to-date state''],
       None)"
    by (auto simp: upgrade_def split: prod.splits option.splits)
  then show ?thesis using restore_no_save [of _ _ _ env] by simp
qed

theorem upgrade_skips_current_witness:
  "snd (restoreStateFromDisk (demo_env [2, 7, 9])) = (Some (2, [7, 9]), True, None)
 \<and> upgrade (demo_env [2, 7, 9])
     = ([ReadAllCall (Reader [2, 7, 9] 0 None), UnmarshalCall (Reader [2, 7, 9] 0 None),
         LogWarning ''Skipping migration of up-to-date state''], None)"
proof -
  have r: "restoreStateFromDisk (demo_env [2, 7, 9])
     = ([ReadAllCall (Reader [2, 7, 9] 0 None), UnmarshalCall (Reader [2, 7, 9] 0 None)],
        (Some (2, [7, 9]), True, None))"
    by (simp add: restoreStateFromDisk_def demo_env_def bytes_NewReader_def)
  then have h: "snd (restoreStateFromDisk (demo_env [2, 7, 9])) = (Some (2, [7, 9]), True, None)"
    by simp
  from upgrade_skips_current [OF h] r show ?thesis
    by (simp add: prod_eq_iff)
qed

section \<open>Importing and exporting\<close>

lemma addPins_trace:
  "addPins env st ps = (t, res, st') \<Longrightarrow> \<exists>k. t = map AddCall (take k ps)"
proof (induction ps arbitrary: st t)
  case Nil
  then show ?case by simp
next
  case (Cons p ps)
  obtain e1 s1 where a: "MapState_Add env st p = (e1, s1)" by (cases "MapState_Add env st p")
  show ?case
  proof (cases e1)
    case (Some err)
    with a Cons.prems have "t = map AddCall (take 1 (p # ps))" by simp
    then show ?thesis by blast
  next
    case None
    obtain t2 r2 where b: "addPins env s1 ps = (t2, r2)" by (cases "addPins env s1 ps")
    with a None Cons.prems have t: "t = AddCall p # t2" and "r2 = (res, st')" by auto
    with b Cons.IH obtain k where "t2 = map AddCall (take k ps)" by blast
    with t have "t = map AddCall (take (Suc k) (p # ps))" by simp
    then show ?thesis by blast
  qed
qed

lemma addPins_no_save: "SnapshotSaveCall c s p \<notin> set (fst (addPins env st ps))"
proof -
  obtain t res st' where a: "addPins env st ps = (t, res, st')"
    by (cases "addPins env st ps") auto
  from addPins_trace [OF a] show ?thesis using a by auto
qed

lemma addPins_ok:
  "addPins env st ps = (t, None, st') \<Longrightarrow> t = map AddCall ps"
  by (induction ps arbitrary: st t) (auto split: prod.splits option.splits)

lemma addPins_first_failure:
  "addPins env st pre = (tp, None, stk) \<Longrightarrow> MapState_Add env stk p = (Some e, st')
     \<Longrightarrow> addPins env st (pre @ p # post) = (map AddCall (pre @ [p]), Some e, st')"
  by (induction pre arbitrary: st tp) (auto split: prod.splits option.splits)

lemma addPins_fail:
  "addPins env st ps = (t, Some e, st') \<Longrightarrow>
     \<exists>pre p post stk. ps = pre @ p # post
        \<and> addPins env st pre = (map AddCall pre, None, stk)
        \<and> MapState_Add env stk p = (Some e, st')
        \<and> t = map AddCall (pre @ [p])"
proof (induction ps arbitrary: st t)
  case Nil
  then show ?case by simp
next
  case (Cons q qs)
  obtain e1 s1 where a: "MapState_Add env st q = (e1, s1)" by (cases "MapState_Add env st q")
  show ?case
  proof (cases e1)
    case (Some err)
    with a Cons.prems have "q # qs = [] @ q # qs \<and> addPins env st [] = (map AddCall [], None, st)
      \<and> MapState_Add env st q = (Some e, st') \<and> t = map AddCall ([] @ [q])" by simp
    then show ?thesis by blast
  next
    case None
    obtain t2 r2 where b: "addPins env s1 qs = (t2, r2)" by (cases "addPins env s1 qs")
    with a None Cons.prems have t: "t = AddCall q # t2" and r2: "r2 = (Some e, st')" by auto
    from Cons.IH [of s1 t2] b r2 obtain pre p post stk where
      d: "qs = pre @ p # post" "addPins env s1 pre = (map AddCall pre, None, stk)"
         "MapState_Add env stk p = (Some e, st')" "t2 = map AddCall (pre @ [p])" by blast
    from a None d t have "q # qs = (q # pre) @ p # post
      \<and> addPins env st (q # pre) = (map AddCall (q # pre), None, stk)
      \<and> MapState_Add env stk p = (Some e, st') \<and> t = map AddCall ((q # pre) @ [p])" by simp
    then show ?thesis by blast
  qed
qed

lemma stateImport_added:
  assumes "LoadJSONFileAndEnv env = Inr cfgs" and "json_Decode env r = Inr pins"
    and "addPins env (mapstate_NewMapState env) pins = (t, None, s')"
  shows "stateImport env r =
    (t @ [SnapshotSaveCall (consensusCfg cfgs) (Some s')
            (PeersFromMultiaddrs env
               (pstoremgr_LoadPeerstore env (GetPeerstorePath (clusterCfg cfgs)))
             @ [ID (clusterCfg cfgs)])],
     raft_SnapshotSave env (consensusCfg cfgs) (Some s')
       (PeersFromMultiaddrs env
          (pstoremgr_LoadPeerstore env (GetPeerstorePath (clusterCfg cfgs)))
        @ [ID (clusterCfg cfgs)]))"
  using assms by (simp add: stateImport_def Let_def)

lemma stateImport_add_failed:
  assumes "LoadJSONFileAndEnv env = Inr cfgs" and "json_Decode env r = Inr pins"
    and "addPins env (mapstate_NewMapState env) pins = (t, Some e, s')"
  shows "stateImport env r = (t, Some e)"
  using assms by (simp add: stateImport_def)

lemma stateImport_decode_failed:
  assumes "LoadJSONFileAndEnv env = Inr cfgs" and "json_Decode env r = Inl e"
  shows "stateImport env r = ([], Some e)"
  using assms by (simp add: stateImport_def)

text \<open>
  C7. With the configuration loaded: if decoding the list of pins fails, import returns
  that error having added nothing and saved nothing; if the pins decode and the add of
  \<open>p\<close> is the first to fail (every pin of \<open>pre\<close> before it was added), import returns
  that error after adding exactly \<open>pre\<close> and \<open>p\<close>, in this order, and saves nothing;
  and whenever import does save a snapshot, it has added every decoded pin, in the order
  of the list, each add succeeded, and the state saved is the one these adds produced.
\<close>

theorem stateImport_fails_fast:
  assumes "LoadJSONFileAndEnv env = Inr cfgs"
  shows "(\<forall>e. json_Decode env r = Inl e \<longrightarrow> stateImport env r = ([], Some e))
       \<and> (\<forall>pre p post tp stk e st'.
            json_Decode env r = Inr (pre @ p # post)
          \<and> addPins env (mapstate_NewMapState env) pre = (tp, None, stk)
          \<and> MapState_Add env stk p = (Some e, st') \<longrightarrow>
            stateImport env r = (map AddCall (pre @ [p]), Some e))
       \<and> (\<forall>c s ps. SnapshotSaveCall c s ps \<in> set (fst (stateImport env r)) \<longrightarrow>
            (\<exists>pins st'. json_Decode env r = Inr pins
               \<and> addPins env (mapstate_NewMapState env) pins = (map AddCall pins, None, st')
               \<and> s = Some st'
               \<and> fst (stateImport env r) = map AddCall pins @ [SnapshotSaveCall c s ps]))"
proof (intro conjI allI impI)
  fix e assume "json_Decode env r = Inl e"
  with assms show "stateImport env r = ([], Some e)" by (rule stateImport_decode_failed)
next
  fix pre p post tp stk e st'
  assume a: "json_Decode env r = Inr (pre @ p # post)
          \<and> addPins env (mapstate_NewMapState env) pre = (tp, None, stk)
          \<and> MapState_Add env stk p = (Some e, st')"
  then have af: "addPins env (mapstate_NewMapState env) (pre @ p # post)
               = (map AddCall (pre @ [p]), Some e, st')"
    using addPins_first_failure [of env "mapstate_NewMapState env" pre tp stk p e st' post]
    by simp
  from a have d: "json_Decode env r = Inr (pre @ p # post)" by simp
  from stateImport_add_failed [OF assms d af]
  show "stateImport env r = (map AddCall (pre @ [p]), Some e)" .
next
  fix c s ps assume a: "SnapshotSaveCall c s ps \<in> set (fst (stateImport env r))"
  show "\<exists>pins st'. json_Decode env r = Inr pins
               \<and> addPins env (mapstate_NewMapState env) pins = (map AddCall pins, None, st')
               \<and> s = Some st'
               \<and> fst (stateImport env r) = map AddCall pins @ [SnapshotSaveCall c s ps]"
  proof (cases "json_Decode env r")
    case (Inl e)
    with assms have "stateImport env r = ([], Some e)" by (rule stateImport_decode_failed)
    with a show ?thesis by simp
  next
    case dec: (Inr pins)
    obtain t res s' where ap: "addPins env (mapstate_NewMapState env) pins = (t, res, s')"
      by (cases "addPins env (mapstate_NewMapState env) pins") auto
    have ns: "SnapshotSaveCall c s ps \<notin> set t"
      using addPins_no_save [of c s ps env "mapstate_NewMapState env" pins] ap by simp
    show ?thesis
    proof (cases res)
      case (Some e)
      with ap have "addPins env (mapstate_NewMapState env) pins = (t, Some e, s')" by simp
      from stateImport_add_failed [OF assms dec this] a ns show ?thesis by simp
    next
      case None
      with ap have "addPins env (mapstate_NewMapState env) pins = (t, None, s')" by simp
      then have t: "t = map AddCall pins" by (rule addPins_ok)
      from assms dec ap None
      have si: "fst (stateImport env r) =
        t @ [SnapshotSaveCall (consensusCfg cfgs) (Some s')
            (PeersFromMultiaddrs env
               (pstoremgr_LoadPeerstore env (GetPeerstorePath (clusterCfg cfgs)))
             @ [ID (clusterCfg cfgs)])]"
        by (simp add: stateImport_added)
      with a ns have eq: "SnapshotSaveCall c s ps =
          SnapshotSaveCall (consensusCfg cfgs) (Some s')
            (PeersFromMultiaddrs env
               (pstoremgr_LoadPeerstore env (GetPeerstorePath (clusterCfg cfgs)))
             @ [ID (clusterCfg cfgs)])" by simp
      then have s: "s = Some s'" by simp
      from si eq t
      have f: "fst (stateImport env r) = map AddCall pins @ [SnapshotSaveCall c s ps]"
        by simp
      from ap None t
      have ap': "addPins env (mapstate_NewMapState env) pins = (map AddCall pins, None, s')"
        by simp
      show ?thesis
        by (rule exI [of _ pins], rule exI [of _ s']) (simp only: dec ap' s f simp_thms)
    qed
  qed
qed

theorem stateImport_fails_fast_witness:
  "stateImport (demo_env []) (Reader [7] 0 (Some (Foreign ''read error'')))
     = ([], Some (Foreign ''read error''))
 \<and> stateImport
     ((demo_env [])\<lparr>MapState_Add :=
        \<lambda>st p. if p = 9 then (Some (Foreign ''invalid pin''), st)
                else (None, (fst st, p # filter (\<lambda>q. q \<noteq> p) (snd st)))\<rparr>)
     (Reader [7, 9, 8] 0 None)
     = ([AddCall 7, AddCall 9], Some (Foreign ''invalid pin''))
 \<and> (\<exists>pins st'. json_Decode (demo_env []) (Reader [7, 9] 0 None) = Inr pins
       \<and> addPins (demo_env []) (mapstate_NewMapState (demo_env [])) pins
           = (map AddCall pins, None, st')
       \<and> Some (2, [9, 7]) = Some st'
       \<and> fst (stateImport (demo_env []) (Reader [7, 9] 0 None))
           = map AddCall pins
             @ [SnapshotSaveCall (consensusCfg demo_cfgs) (Some (2, [9, 7])) [''self'']])"
proof -
  let ?bad = "(demo_env [])\<lparr>MapState_Add :=
        \<lambda>st p. if p = 9 then (Some (Foreign ''invalid pin''), st)
                else (None, (fst st, p # filter (\<lambda>q. q \<noteq> p) (snd st)))\<rparr>"
  have cfg: "LoadJSONFileAndEnv (demo_env []) = Inr demo_cfgs" by (simp add: demo_env_def)
  have cfgb: "LoadJSONFileAndEnv ?bad = Inr demo_cfgs" by (simp add: demo_env_def)
  have d: "json_Decode (demo_env []) (Reader [7] 0 (Some (Foreign ''read error'')))
             = Inl (Foreign ''read error'')"
    by (simp add: demo_env_def)
  from stateImport_fails_fast [OF cfg, THEN conjunct1, rule_format, OF d]
  have one: "stateImport (demo_env []) (Reader [7] 0 (Some (Foreign ''read error'')))
     = ([], Some (Foreign ''read error''))" .
  have pre: "json_Decode ?bad (Reader [7, 9, 8] 0 None) = Inr ([7] @ 9 # [8])
       \<and> addPins ?bad (mapstate_NewMapState ?bad) [7] = ([AddCall 7], None, (2, [7]))
       \<and> MapState_Add ?bad (2, [7]) 9 = (Some (Foreign ''invalid pin''), (2, [7]))"
    by (simp add: demo_env_def)
  from stateImport_fails_fast [OF cfgb, THEN conjunct2, THEN conjunct1, rule_format, OF pre]
  have two: "stateImport ?bad (Reader [7, 9, 8] 0 None)
     = ([AddCall 7, AddCall 9], Some (Foreign ''invalid pin''))" by simp
  have sv: "SnapshotSaveCall (consensusCfg demo_cfgs) (Some (2, [9, 7])) [''self'']
      \<in> set (fst (stateImport (demo_env []) (Reader [7, 9] 0 None)))"
    by (simp add: stateImport_def demo_env_def demo_cfgs_def Let_def)
  note three = stateImport_fails_fast
      [OF cfg, THEN conjunct2, THEN conjunct2, rule_format, OF sv]
  from one two three show ?thesis by simp
qed

lemma upgrade_saved:
  assumes "LoadJSONFileAndEnv env = Inr cfgs"
    and "restoreStateFromDisk env = (t, (s, False, None))"
  shows "upgrade env =
    (t @ [SnapshotSaveCall (consensusCfg cfgs) s
            (PeersFromMultiaddrs env
               (pstoremgr_LoadPeerstore env (GetPeerstorePath (clusterCfg cfgs)))
             @ [ID (clusterCfg cfgs)])],
     raft_SnapshotSave env (consensusCfg cfgs) s
       (PeersFromMultiaddrs env
          (pstoremgr_LoadPeerstore env (GetPeerstorePath (clusterCfg cfgs)))
        @ [ID (clusterCfg cfgs)]))"
  using assms by (simp add: upgrade_def Let_def)

lemma saved_peers_end_with_self:
  assumes "SnapshotSaveCall c st peers \<in> set (fst (upgrade env))
         \<or> SnapshotSaveCall c st peers \<in> set (fst (stateImport env r))"
  shows "\<exists>cfgs. LoadJSONFileAndEnv env = Inr cfgs \<and> c = consensusCfg cfgs
           \<and> peers = PeersFromMultiaddrs env
                       (pstoremgr_LoadPeerstore env (GetPeerstorePath (clusterCfg cfgs)))
                     @ [ID (clusterCfg cfgs)]
           \<and> ID (clusterCfg cfgs) \<in> set peers"
  using assms
proof
  assume a: "SnapshotSaveCall c st peers \<in> set (fst (upgrade env))"
  obtain t s cur e where rs: "restoreStateFromDisk env = (t, s, cur, e)"
    by (cases "restoreStateFromDisk env") auto
  have "SnapshotSaveCall c st peers \<notin> set t"
    using restore_no_save [of c st peers env] rs by simp
  with a rs show ?thesis
    by (auto simp: upgrade_def Let_def split: option.splits sum.splits if_splits)
next
  assume a: "SnapshotSaveCall c st peers \<in> set (fst (stateImport env r))"
  show ?thesis
  proof (cases "LoadJSONFileAndEnv env")
    case (Inl e)
    with a show ?thesis by (simp add: stateImport_def)
  next
    case (Inr cfgs)
    show ?thesis
    proof (cases "json_Decode env r")
      case (Inl e)
      with a Inr show ?thesis by (simp add: stateImport_def)
    next
      case dec: (Inr pins)
      obtain t res s' where ap: "addPins env (mapstate_NewMapState env) pins = (t, res, s')"
        by (cases "addPins env (mapstate_NewMapState env) pins") auto
      have ns: "SnapshotSaveCall c st peers \<notin> set t"
        using addPins_no_save [of c st peers env "mapstate_NewMapState env" pins] ap by simp
      show ?thesis
      proof (cases res)
        case (Some e)
        with ap have "addPins env (mapstate_NewMapState env) pins = (t, Some e, s')" by simp
        from stateImport_add_failed [OF Inr dec this] a ns show ?thesis by simp
      next
        case None
        with ap have "addPins env (mapstate_NewMapState env) pins = (t, None, s')" by simp
        from stateImport_added [OF Inr dec this] a ns Inr show ?thesis by simp
      qed
    qed
  qed
qed

text \<open>
  C3. With the configuration loaded: when restore returns a state that is not current,
  \<^verbatim>\<open>upgrade\<close> does what restore did and then saves that state, and when the pins
  decode and every add succeeds, \<^verbatim>\<open>stateImport\<close> makes the adds and then saves the
  new state; in both, the save is called with the loaded consensus configuration and
  with the peer list made of the peers of the peer store (whatever they are, none
  included) followed by the ID of the loaded cluster configuration, and what the save
  returns is what the command returns. Conversely every snapshot that either command
  saves is saved with that list; so this node's ID is in the list.
\<close>

theorem persist_membership_has_self:
  "(\<forall>t s. LoadJSONFileAndEnv env = Inr cfgs
          \<and> restoreStateFromDisk env = (t, (s, False, None)) \<longrightarrow>
      upgrade env =
        (t @ [SnapshotSaveCall (consensusCfg cfgs) s
                (PeersFromMultiaddrs env
                   (pstoremgr_LoadPeerstore env (GetPeerstorePath (clusterCfg cfgs)))
                 @ [ID (clusterCfg cfgs)])],
         raft_SnapshotSave env (consensusCfg cfgs) s
           (PeersFromMultiaddrs env
              (pstoremgr_LoadPeerstore env (GetPeerstorePath (clusterCfg cfgs)))
            @ [ID (clusterCfg cfgs)])))
 \<and> (\<forall>pins t s'. LoadJSONFileAndEnv env = Inr cfgs
          \<and> json_Decode env r = Inr pins
          \<and> addPins env (mapstate_NewMapState env) pins = (t, None, s') \<longrightarrow>
      stateImport env r =
        (t @ [SnapshotSaveCall (consensusCfg cfgs) (Some s')
                (PeersFromMultiaddrs env
                   (pstoremgr_LoadPeerstore env (GetPeerstorePath (clusterCfg cfgs)))
                 @ [ID (clusterCfg cfgs)])],
         raft_SnapshotSave env (consensusCfg cfgs) (Some s')
           (PeersFromMultiaddrs env
              (pstoremgr_LoadPeerstore env (GetPeerstorePath (clusterCfg cfgs)))
            @ [ID (clusterCfg cfgs)])))
 \<and> (\<forall>c st peers.
        SnapshotSaveCall c st peers \<in> set (fst (upgrade env))
      \<or> SnapshotSaveCall c st peers \<in> set (fst (stateImport env r)) \<longrightarrow>
        (\<exists>loaded. LoadJSONFileAndEnv env = Inr loaded \<and> c = consensusCfg loaded
           \<and> peers = PeersFromMultiaddrs env
                       (pstoremgr_LoadPeerstore env (GetPeerstorePath (clusterCfg loaded)))
                     @ [ID (clusterCfg loaded)]
           \<and> ID (clusterCfg loaded) \<in> set peers))"
proof (intro conjI allI impI)
  fix t s
  assume "LoadJSONFileAndEnv env = Inr cfgs \<and> restoreStateFromDisk env = (t, (s, False, None))"
  then show "upgrade env =
        (t @ [SnapshotSaveCall (consensusCfg cfgs) s
                (PeersFromMultiaddrs env
                   (pstoremgr_LoadPeerstore env (GetPeerstorePath (clusterCfg cfgs)))
                 @ [ID (clusterCfg cfgs)])],
         raft_SnapshotSave env (consensusCfg cfgs) s
           (PeersFromMultiaddrs env
              (pstoremgr_LoadPeerstore env (GetPeerstorePath (clusterCfg cfgs)))
            @ [ID (clusterCfg cfgs)]))"
    by (simp add: upgrade_saved)
next
  fix pins t s'
  assume "LoadJSONFileAndEnv env = Inr cfgs \<and> json_Decode env r = Inr pins
          \<and> addPins env (mapstate_NewMapState env) pins = (t, None, s')"
  then show "stateImport env r =
        (t @ [SnapshotSaveCall (consensusCfg cfgs) (Some s')
                (PeersFromMultiaddrs env
                   (pstoremgr_LoadPeerstore env (GetPeerstorePath (clusterCfg cfgs)))
                 @ [ID (clusterCfg cfgs)])],
         raft_SnapshotSave env (consensusCfg cfgs) (Some s')
           (PeersFromMultiaddrs env
              (pstoremgr_LoadPeerstore env (GetPeerstorePath (clusterCfg cfgs)))
            @ [ID (clusterCfg cfgs)]))"
    by (simp add: stateImport_added)
next
  fix c st peers
  assume "SnapshotSaveCall c st peers \<in> set (fst (upgrade env))
        \<or> SnapshotSaveCall c st peers \<in> set (fst (stateImport env r))"
  then show "\<exists>loaded. LoadJSONFileAndEnv env = Inr loaded \<and> c = consensusCfg loaded
           \<and> peers = PeersFromMultiaddrs env
                       (pstoremgr_LoadPeerstore env (GetPeerstorePath (clusterCfg loaded)))
                     @ [ID (clusterCfg loaded)]
           \<and> ID (clusterCfg loaded) \<in> set peers"
    by (rule saved_peers_end_with_self)
qed

theorem persist_membership_has_self_witness:
  "upgrade ((demo_env [1, 7, 9])\<lparr>pstoremgr_LoadPeerstore := \<lambda>path. [''peerA'', ''peerB'']\<rparr>)
     = ([ReadAllCall (Reader [1, 7, 9] 0 None), UnmarshalCall (Reader [1, 7, 9] 0 None),
         MigrateCall (Reader [1, 7, 9] 0 None),
         SnapshotSaveCall (consensusCfg demo_cfgs) (Some (2, [7, 9]))
           [''peerA'', ''peerB'', ''self'']], None)
 \<and> upgrade (demo_env [1, 7, 9])
     = ([ReadAllCall (Reader [1, 7, 9] 0 None), UnmarshalCall (Reader [1, 7, 9] 0 None),
         MigrateCall (Reader [1, 7, 9] 0 None),
         SnapshotSaveCall (consensusCfg demo_cfgs) (Some (2, [7, 9])) [''self'']], None)
 \<and> stateImport
       ((demo_env [])\<lparr>pstoremgr_LoadPeerstore := \<lambda>path. [''peerA'', ''peerB'']\<rparr>)
       (Reader [7, 9] 0 None)
     = ([AddCall 7, AddCall 9,
         SnapshotSaveCall (consensusCfg demo_cfgs) (Some (2, [9, 7]))
           [''peerA'', ''peerB'', ''self'']], None)
 \<and> (\<exists>loaded. LoadJSONFileAndEnv (demo_env [1, 7, 9]) = Inr loaded
       \<and> consensusCfg demo_cfgs = consensusCfg loaded
       \<and> [''self''] = PeersFromMultiaddrs (demo_env [1, 7, 9])
                       (pstoremgr_LoadPeerstore (demo_env [1, 7, 9])
                          (GetPeerstorePath (clusterCfg loaded)))
                     @ [ID (clusterCfg loaded)]
       \<and> ID (clusterCfg loaded) \<in> set [''self''])"
proof -
  let ?two = "(demo_env [1, 7, 9])\<lparr>pstoremgr_LoadPeerstore := \<lambda>path. [''peerA'', ''peerB'']\<rparr>"
  let ?imp = "(demo_env [])\<lparr>pstoremgr_LoadPeerstore := \<lambda>path. [''peerA'', ''peerB'']\<rparr>"
  have r2: "LoadJSONFileAndEnv ?two = Inr demo_cfgs
      \<and> restoreStateFromDisk ?two
          = ([ReadAllCall (Reader [1, 7, 9] 0 None), UnmarshalCall (Reader [1, 7, 9] 0 None),
              MigrateCall (Reader [1, 7, 9] 0 None)], (Some (2, [7, 9]), False, None))"
    by (simp add: restoreStateFromDisk_def bytes_NewReader_def demo_env_def Let_def)
  have r0: "LoadJSONFileAndEnv (demo_env [1, 7, 9]) = Inr demo_cfgs
      \<and> restoreStateFromDisk (demo_env [1, 7, 9])
          = ([ReadAllCall (Reader [1, 7, 9] 0 None), UnmarshalCall (Reader [1, 7, 9] 0 None),
              MigrateCall (Reader [1, 7, 9] 0 None)], (Some (2, [7, 9]), False, None))"
    by (simp add: restoreStateFromDisk_def bytes_NewReader_def demo_env_def Let_def)
  have i2: "LoadJSONFileAndEnv ?imp = Inr demo_cfgs
      \<and> json_Decode ?imp (Reader [7, 9] 0 None) = Inr [7, 9]
      \<and> addPins ?imp (mapstate_NewMapState ?imp) [7, 9]
          = ([AddCall 7, AddCall 9], None, (2, [9, 7]))"
    by (simp add: demo_env_def)
  from persist_membership_has_self
         [of ?two demo_cfgs "Reader [7, 9] 0 None", THEN conjunct1, rule_format, OF r2]
  have one: "upgrade ?two
     = ([ReadAllCall (Reader [1, 7, 9] 0 None), UnmarshalCall (Reader [1, 7, 9] 0 None),
         MigrateCall (Reader [1, 7, 9] 0 None),
         SnapshotSaveCall (consensusCfg demo_cfgs) (Some (2, [7, 9]))
           [''peerA'', ''peerB'', ''self'']], None)"
    by (simp add: demo_env_def demo_cfgs_def)
  from persist_membership_has_self
         [of "demo_env [1, 7, 9]" demo_cfgs "Reader [7, 9] 0 None", THEN conjunct1,
          rule_format, OF r0]
  have two: "upgrade (demo_env [1, 7, 9])
     = ([ReadAllCall (Reader [1, 7, 9] 0 None), UnmarshalCall (Reader [1, 7, 9] 0 None),
         MigrateCall (Reader [1, 7, 9] 0 None),
         SnapshotSaveCall (consensusCfg demo_cfgs) (Some (2, [7, 9])) [''self'']], None)"
    by (simp add: demo_env_def demo_cfgs_def)
  from persist_membership_has_self
         [of ?imp demo_cfgs "Reader [7, 9] 0 None", THEN conjunct2, THEN conjunct1,
          rule_format, OF i2]
  have three: "stateImport ?imp (Reader [7, 9] 0 None)
     = ([AddCall 7, AddCall 9,
         SnapshotSaveCall (consensusCfg demo_cfgs) (Some (2, [9, 7]))
           [''peerA'', ''peerB'', ''self'']], None)"
    by (simp add: demo_env_def demo_cfgs_def)
  from two have h: "SnapshotSaveCall (consensusCfg demo_cfgs) (Some (2, [7, 9])) [''self'']
      \<in> set (fst (upgrade (demo_env [1, 7, 9])))
    \<or> SnapshotSaveCall (consensusCfg demo_cfgs) (Some (2, [7, 9])) [''self'']
      \<in> set (fst (stateImport (demo_env [1, 7, 9]) (Reader [7, 9] 0 None)))"
    by simp
  note four = persist_membership_has_self
         [of "demo_env [1, 7, 9]" demo_cfgs "Reader [7, 9] 0 None", THEN conjunct2,
          THEN conjunct2, rule_format, OF h]
  from one two three four show ?thesis by simp
qed

lemma addPins_keyed:
  assumes add: "\<And>s p. \<exists>s'. MapState_Add env s p = (None, s')
            \<and> set (State_List env s') = insert p {q \<in> set (State_List env s). cid q \<noteq> cid p}"
  shows "inj_on cid (set ps) \<Longrightarrow>
         \<exists>s'. addPins env st ps = (map AddCall ps, None, s')
            \<and> set (State_List env s')
                = set ps \<union> {q \<in> set (State_List env st). cid q \<notin> cid ` set ps}"
proof (induction ps arbitrary: st)
  case Nil
  then show ?case by simp
next
  case (Cons p ps)
  from add [of st p] obtain s1 where
    a: "MapState_Add env st p = (None, s1)"
    and l1: "set (State_List env s1) = insert p {q \<in> set (State_List env st). cid q \<noteq> cid p}"
    by blast
  from Cons.prems have inj: "inj_on cid (set ps)" by (simp add: inj_on_def)
  from Cons.IH [OF inj, of s1] obtain s' where
    b: "addPins env s1 ps = (map AddCall ps, None, s')"
    and l2: "set (State_List env s')
               = set ps \<union> {q \<in> set (State_List env s1). cid q \<notin> cid ` set ps}"
    by blast
  have same: "cid p \<in> cid ` set ps \<Longrightarrow> p \<in> set ps"
  proof -
    assume "cid p \<in> cid ` set ps"
    then obtain q where q: "q \<in> set ps" "cid q = cid p" by auto
    with Cons.prems have "q = p" by (simp add: inj_on_def)
    with q show "p \<in> set ps" by simp
  qed
  have "set (State_List env s')
          = set (p # ps) \<union> {q \<in> set (State_List env st). cid q \<notin> cid ` set (p # ps)}"
    unfolding l2 l1 using same by auto
  moreover from a b have "addPins env st (p # ps) = (map AddCall (p # ps), None, s')" by simp
  ultimately show ?case by (intro exI [of _ s']) (simp only: simp_thms)
qed

text \<open>
  C4. Take a state \<open>st\<close> and let \<open>cid\<close> be what identifies a pin. Suppose the
  collaborators keep their contracts: the JSON text of the list of \<open>st\<close> decodes back
  to that list; \<open>Add\<close> never fails and leaves the state listing the added pin in place of
  any pin with the same identifier; a new map state lists nothing; and no two different
  pins of \<open>st\<close> share an identifier. Then \<^verbatim>\<open>exportState\<close> writes that text, and
  \<^verbatim>\<open>stateImport\<close> on it adds the pins of \<open>st\<close> and saves a state that lists the same
  set of pins as \<open>st\<close>.
\<close>

theorem export_import_round_trip:
  assumes cfg: "LoadJSONFileAndEnv env = Inr cfgs"
    and enc: "json_Encode env (State_List env st) = Inr txt"
    and dec: "json_Decode env (bytes_NewReader txt) = Inr (State_List env st)"
    and add: "\<forall>s p. \<exists>s'. MapState_Add env s p = (None, s')
            \<and> set (State_List env s') = insert p {q \<in> set (State_List env s). cid q \<noteq> cid p}"
    and new: "State_List env (mapstate_NewMapState env) = []"
    and uniq: "inj_on cid (set (State_List env st))"
  shows "exportState env st (Writer [] None) = (Writer txt None, None)
       \<and> (\<exists>st' peers.
            fst (stateImport env (bytes_NewReader txt))
              = map AddCall (State_List env st)
                @ [SnapshotSaveCall (consensusCfg cfgs) (Some st') peers]
          \<and> set (State_List env st') = set (State_List env st))"
proof
  from enc show "exportState env st (Writer [] None) = (Writer txt None, None)"
    by (simp add: exportState_def)
next
  from add have add': "\<And>s p. \<exists>s'. MapState_Add env s p = (None, s')
            \<and> set (State_List env s') = insert p {q \<in> set (State_List env s). cid q \<noteq> cid p}"
    by blast
  from addPins_keyed [of env cid "State_List env st" "mapstate_NewMapState env", OF add' uniq]
  obtain s' where
    ap: "addPins env (mapstate_NewMapState env) (State_List env st)
           = (map AddCall (State_List env st), None, s')"
    and l: "set (State_List env s') = set (State_List env st)"
    using new by auto
  from stateImport_added [OF cfg dec ap]
  have "fst (stateImport env (bytes_NewReader txt))
          = map AddCall (State_List env st)
            @ [SnapshotSaveCall (consensusCfg cfgs) (Some s')
                 (PeersFromMultiaddrs env
                    (pstoremgr_LoadPeerstore env (GetPeerstorePath (clusterCfg cfgs)))
                  @ [ID (clusterCfg cfgs)])]"
    by simp
  then show "\<exists>st' peers.
            fst (stateImport env (bytes_NewReader txt))
              = map AddCall (State_List env st)
                @ [SnapshotSaveCall (consensusCfg cfgs) (Some st') peers]
          \<and> set (State_List env st') = set (State_List env st)"
    by (intro exI [of _ s'] exI [of _ "PeersFromMultiaddrs env
                    (pstoremgr_LoadPeerstore env (GetPeerstorePath (clusterCfg cfgs)))
                  @ [ID (clusterCfg cfgs)]"]) (simp only: l simp_thms)
qed

theorem export_import_round_trip_witness:
  "exportState (demo_env []) (2, [7, 9]) (Writer [] None) = (Writer [7, 9] None, None)
 \<and> (\<exists>st' peers.
       fst (stateImport (demo_env []) (bytes_NewReader [7, 9]))
         = map AddCall (State_List (demo_env []) (2, [7, 9]))
           @ [SnapshotSaveCall (consensusCfg demo_cfgs) (Some st') peers]
     \<and> set (State_List (demo_env []) st') = set (State_List (demo_env []) (2, [7, 9])))
 \<and> exportState (demo_env []) (2, []) (Writer [] None) = (Writer [] None, None)
 \<and> (\<exists>st' peers.
       fst (stateImport (demo_env []) (bytes_NewReader []))
         = map AddCall (State_List (demo_env []) (2, []))
           @ [SnapshotSaveCall (consensusCfg demo_cfgs) (Some st') peers]
     \<and> set (State_List (demo_env []) st') = set (State_List (demo_env []) (2, [])))"
proof -
  have cfg: "LoadJSONFileAndEnv (demo_env []) = Inr demo_cfgs" by (simp add: demo_env_def)
  have add: "\<forall>s p. \<exists>s'. MapState_Add (demo_env []) s p = (None, s')
      \<and> set (State_List (demo_env []) s')
          = insert p {q \<in> set (State_List (demo_env []) s). (\<lambda>x. x) q \<noteq> (\<lambda>x. x) p}"
    by (auto simp: demo_env_def)
  have new: "State_List (demo_env []) (mapstate_NewMapState (demo_env [])) = []"
    by (simp add: demo_env_def)
  have enc: "json_Encode (demo_env []) (State_List (demo_env []) (2, [7, 9])) = Inr [7, 9]"
    by (simp add: demo_env_def)
  have dec: "json_Decode (demo_env []) (bytes_NewReader [7, 9])
               = Inr (State_List (demo_env []) (2, [7, 9]))"
    by (simp add: demo_env_def bytes_NewReader_def)
  have uniq: "inj_on (\<lambda>x. x) (set (State_List (demo_env []) (2, [7, 9])))" by simp
  have enc0: "json_Encode (demo_env []) (State_List (demo_env []) (2, [])) = Inr []"
    by (simp add: demo_env_def)
  have dec0: "json_Decode (demo_env []) (bytes_NewReader [])
               = Inr (State_List (demo_env []) (2, []))"
    by (simp add: demo_env_def bytes_NewReader_def)
  have uniq0: "inj_on (\<lambda>x. x) (set (State_List (demo_env []) (2, [])))" by simp
  from export_import_round_trip [OF cfg enc dec add new uniq]
       export_import_round_trip [OF cfg enc0 dec0 add new uniq0]
  show ?thesis by simp
qed

section \<open>Checking the version before start\<close>

text \<open>
  C2. \<^verbatim>\<open>validateVersion\<close> returns nil exactly in two cases: the snapshot store reports
  no snapshot and no error; or it reports a snapshot and no error, the snapshot decodes,
  and the decoded version is the current one. (A snapshot reported together with a read
  error is not decoded at all.) In every other case the error is not nil.
\<close>

theorem validateVersion_passes_iff:
  "snd (validateVersion env cfg cCfg) = None \<longleftrightarrow>
     (case raft_LastStateRaw env cCfg of
        (r, snapExists, err) \<Rightarrow>
          (\<not> snapExists \<and> err = None)
        \<or> (snapExists \<and> err = None
           \<and> (case MapState_Unmarshal env (mapstate_NewMapState env) r of
                 (err2, state, _) \<Rightarrow>
                   err2 = None \<and> MapState_GetVersion env state = mapstate_Version env)))"
  by (auto simp: validateVersion_def Let_def split: prod.splits option.splits)

theorem validateVersion_passes_iff_witness:
  "snd (validateVersion (demo_env [2, 7]) (clusterCfg demo_cfgs) (consensusCfg demo_cfgs))
     = None
 \<and> snd (validateVersion
     ((demo_env [])\<lparr>raft_LastStateRaw := \<lambda>c. (Reader [] 0 None, False, None)\<rparr>)
     (clusterCfg demo_cfgs) (consensusCfg demo_cfgs)) = None
 \<and> snd (validateVersion (demo_env [1, 7]) (clusterCfg demo_cfgs) (consensusCfg demo_cfgs))
     \<noteq> None
 \<and> snd (validateVersion (demo_env []) (clusterCfg demo_cfgs) (consensusCfg demo_cfgs))
     \<noteq> None"
  using
    validateVersion_passes_iff
      [of "demo_env [2, 7]" "clusterCfg demo_cfgs" "consensusCfg demo_cfgs"]
    validateVersion_passes_iff
      [of "(demo_env [])\<lparr>raft_LastStateRaw := \<lambda>c. (Reader [] 0 None, False, None)\<rparr>"
          "clusterCfg demo_cfgs" "consensusCfg demo_cfgs"]
    validateVersion_passes_iff
      [of "demo_env [1, 7]" "clusterCfg demo_cfgs" "consensusCfg demo_cfgs"]
    validateVersion_passes_iff
      [of "demo_env []" "clusterCfg demo_cfgs" "consensusCfg demo_cfgs"]
  by (simp add: demo_env_def)

text \<open>
  C6. With a snapshot reported: a read error \<open>e\<close> is returned as it is after one log
  line that says the snapshot is potentially corrupt; a decode error \<open>e\<close> likewise,
  with its own such line; a snapshot that decodes with another version gives the new
  error "outdated state version stored" after the lines that tell the operator to run
  the state upgrade or to rename the consensus data directory, and none that speaks of
  corruption. That error is not an error of any collaborator.
\<close>

theorem validateVersion_failure_kinds:
  assumes "raft_LastStateRaw env cCfg = (r, True, err)"
  shows "(\<forall>e. err = Some e \<longrightarrow>
            validateVersion env cfg cCfg =
              ([LogError ''error after reading last snapshot. Snapshot potentially corrupt.''],
               Some e))
       \<and> (\<forall>e s' r'. err = None
              \<and> MapState_Unmarshal env (mapstate_NewMapState env) r = (Some e, s', r') \<longrightarrow>
            validateVersion env cfg cCfg =
              ([UnmarshalCall r,
                LogError ''error unmarshalling snapshot. Snapshot potentially corrupt.''],
               Some e))
       \<and> (\<forall>s1 r1. err = None
              \<and> MapState_Unmarshal env (mapstate_NewMapState env) r = (None, s1, r1)
              \<and> MapState_GetVersion env s1 \<noteq> mapstate_Version env \<longrightarrow>
            validateVersion env cfg cCfg =
              ([UnmarshalCall r,
                LogError ''!!!!!!!!!!!!!!!!!!!!!!!!!!!!!!!!!!!!!!!!!!!!!!!'',
                LogError ''Out of date ipfs-cluster state is saved.'',
                LogError ''To migrate to the new version, run ipfs-cluster-service state upgrade.'',
                LogError ''To launch a node without this state, rename the consensus data directory.'',
                LogError ''Hint: the default is .ipfs-cluster/raft.'',
                LogError ''!!!!!!!!!!!!!!!!!!!!!!!!!!!!!!!!!!!!!!!!!!!!!!!''],
               Some (errors_New ''outdated state version stored'')))
       \<and> (\<forall>m. errors_New ''outdated state version stored'' \<noteq> Foreign m)"
  using assms
  by (auto simp: validateVersion_def errors_New_def Let_def split: prod.splits option.splits)

theorem validateVersion_failure_kinds_witness:
  "validateVersion
     ((demo_env [2])\<lparr>raft_LastStateRaw :=
        \<lambda>c. (Reader [2] 0 None, True, Some (Foreign ''read failed''))\<rparr>)
     (clusterCfg demo_cfgs) (consensusCfg demo_cfgs)
     = ([LogError ''error after reading last snapshot. Snapshot potentially corrupt.''],
        Some (Foreign ''read failed''))
 \<and> validateVersion (demo_env []) (clusterCfg demo_cfgs) (consensusCfg demo_cfgs)
     = ([UnmarshalCall (Reader [] 0 None),
         LogError ''error unmarshalling snapshot. Snapshot potentially corrupt.''],
        Some (Foreign ''unexpected end of input''))
 \<and> snd (validateVersion (demo_env [1, 7]) (clusterCfg demo_cfgs) (consensusCfg demo_cfgs))
     = Some (Local ''outdated state version stored'')
 \<and> LogError ''To migrate to the new version, run ipfs-cluster-service state upgrade.''
     \<in> set (fst (validateVersion (demo_env [1, 7]) (clusterCfg demo_cfgs)
                   (consensusCfg demo_cfgs)))"
proof -
  let ?io = "(demo_env [2])\<lparr>raft_LastStateRaw :=
        \<lambda>c. (Reader [2] 0 None, True, Some (Foreign ''read failed''))\<rparr>"
  have a: "raft_LastStateRaw ?io (consensusCfg demo_cfgs)
             = (Reader [2] 0 None, True, Some (Foreign ''read failed''))"
    by (simp add: demo_env_def)
  have b: "raft_LastStateRaw (demo_env []) (consensusCfg demo_cfgs)
             = (Reader [] 0 None, True, None)"
    by (simp add: demo_env_def)
  have c: "raft_LastStateRaw (demo_env [1, 7]) (consensusCfg demo_cfgs)
             = (Reader [1, 7] 0 None, True, None)"
    by (simp add: demo_env_def)
  from validateVersion_failure_kinds [OF a, of "clusterCfg demo_cfgs"]
  have one: "validateVersion ?io (clusterCfg demo_cfgs) (consensusCfg demo_cfgs)
     = ([LogError ''error after reading last snapshot. Snapshot potentially corrupt.''],
        Some (Foreign ''read failed''))"
    by simp
  from validateVersion_failure_kinds [OF b, of "clusterCfg demo_cfgs"]
  have two: "validateVersion (demo_env []) (clusterCfg demo_cfgs) (consensusCfg demo_cfgs)
     = ([UnmarshalCall (Reader [] 0 None),
         LogError ''error unmarshalling snapshot. Snapshot potentially corrupt.''],
        Some (Foreign ''unexpected end of input''))"
    by (simp add: demo_env_def)
  from validateVersion_failure_kinds [OF c, of "clusterCfg demo_cfgs"]
  have three: "validateVersion (demo_env [1, 7]) (clusterCfg demo_cfgs) (consensusCfg demo_cfgs)
     = ([UnmarshalCall (Reader [1, 7] 0 None),
         LogError ''!!!!!!!!!!!!!!!!!!!!!!!!!!!!!!!!!!!!!!!!!!!!!!!'',
         LogError ''Out of date ipfs-cluster state is saved.'',
         LogError ''To migrate to the new version, run ipfs-cluster-service state upgrade.'',
         LogError ''To launch a node without this state, rename the consensus data directory.'',
         LogError ''Hint: the default is .ipfs-cluster/raft.'',
         LogError ''!!!!!!!!!!!!!!!!!!!!!!!!!!!!!!!!!!!!!!!!!!!!!!!''],
        Some (errors_New ''outdated state version stored''))"
    by (simp add: demo_env_def)
  from one two three show ?thesis by (simp add: errors_New_def)
qed

end
